theory Spec2Isabelle
  imports Main "HOL-Library.Finite_Map"
begin

section \<open>Values and errors\<close>

text \<open>
  The configuration store of \<^verbatim>\<open>src/utils/configManager.ts\<close> keeps JSON documents in
  files. A JavaScript value that \<^verbatim>\<open>JSON.parse\<close> can return is a \<open>json\<close>. A number is
  kept as the text \<^verbatim>\<open>String\<close> gives for it (so zero is \<open>''0''\<close>); the properties of an
  object are an association list, read with \<open>map_of\<close>. A \<open>string\<close> stands for a
  JavaScript string, one \<open>char\<close> for each UTF-16 code unit, so \<open>length\<close> is the
  \<^verbatim>\<open>.length\<close> that the schema measures.
\<close>

datatype json =
    JNull
  | JBool bool
  | JNum string
  | JStr string
  | JArr "json list"
  | JObj "(string \<times> json) list"

text \<open>
  What a \<^verbatim>\<open>throw\<close> carries: the error codes of \<^verbatim>\<open>node:fs\<close> and the two built-in
  errors the store can meet.
\<close>

datatype error =
    ENOENT
  | ENOTDIR
  | EISDIR
  | ERR_INVALID_ARG_VALUE
  | SyntaxError
  | TypeError

text \<open>
  The text of a file, as \<^verbatim>\<open>readFileSync(path, "utf-8")\<close> returns it: either the text of a
  JSON document, known by the value it parses to, or some other text. \<^verbatim>\<open>JSON.parse\<close> of
  the text that \<^verbatim>\<open>JSON.stringify\<close> wrote gives the value back.
\<close>

datatype content =
    Json_text json
  | Other_text string

definition JSON_stringify :: "json \<Rightarrow> content" where
  "JSON_stringify v = Json_text v"







section \<open>Paths and the file system\<close>

text \<open>
  A \<open>path\<close> is an absolute, normalised POSIX path: its segments from the root.
  \<open>join dir rel\<close> is \<^verbatim>\<open>path.join(dir, rel)\<close> of \<^verbatim>\<open>node:path\<close> for such a \<open>dir\<close>: the
  two are put together with a separator and the result is normalised, which drops
  empty and \<^verbatim>\<open>.\<close> segments and lets \<^verbatim>\<open>..\<close> remove the segment before it.
\<close>

type_synonym path = "string list"

fun split_sep :: "string \<Rightarrow> string list" where
  "split_sep [] = [[]]"
| "split_sep (c # cs) =
     (if c = CHR ''/'' then [] # split_sep cs
      else (case split_sep cs of [] \<Rightarrow> [[c]] | w # ws \<Rightarrow> (c # w) # ws))"

definition normalize_step :: "path \<Rightarrow> string \<Rightarrow> path" where
  "normalize_step acc seg =
     (if seg = [] \<or> seg = ''.'' then acc
      else if seg = ''..'' then butlast acc
      else acc @ [seg])"

definition join :: "path \<Rightarrow> string \<Rightarrow> path" where
  "join dir rel = foldl normalize_step dir (split_sep rel)"

text \<open>
  The file system is a finite map from paths to nodes. The root is the empty path and
  is always a directory. The functions of \<^verbatim>\<open>node:fs\<close> fail as the structure of the
  file system makes them fail (a missing parent directory, a directory where a file is
  expected, a null byte in the path); failures of the device or of permissions are not
  part of the model.
\<close>

datatype node = File content | Dir

type_synonym fs = "(path, node) fmap"

definition valid_path :: "path \<Rightarrow> bool" where
  "valid_path p = list_all (\<lambda>seg. CHR 0x00 \<notin> set seg) p"

definition is_dir :: "fs \<Rightarrow> path \<Rightarrow> bool" where
  "is_dir s p = (p = [] \<or> fmlookup s p = Some Dir)"



definition writeFileSync :: "fs \<Rightarrow> path \<Rightarrow> content \<Rightarrow> error + fs" where
  "writeFileSync s p c =
     (if \<not> valid_path p then Inl ERR_INVALID_ARG_VALUE
      else if p = [] then Inl EISDIR
      else (case fmlookup s p of
              Some Dir \<Rightarrow> Inl EISDIR
            | Some (File _) \<Rightarrow> Inr (fmupd p (File c) s)
            | None \<Rightarrow>
                if is_dir s (butlast p) then Inr (fmupd p (File c) s)
                else if fmlookup s (butlast p) = None then Inl ENOENT
                else Inl ENOTDIR))"

definition unlinkSync :: "fs \<Rightarrow> path \<Rightarrow> error + fs" where
  "unlinkSync s p =
     (if \<not> valid_path p then Inl ERR_INVALID_ARG_VALUE
      else if p = [] then Inl EISDIR
      else (case fmlookup s p of
              None \<Rightarrow> Inl ENOENT
            | Some Dir \<Rightarrow> Inl EISDIR
            | Some (File _) \<Rightarrow> Inr (fmdrop p s)))"


section \<open>The schema of a configuration record\<close>

text \<open>
  \<^verbatim>\<open>AppConfig\<close> is the type the schema infers: a name and an optional description.
  \<open>toJson\<close> is the object as \<^verbatim>\<open>JSON.stringify\<close> sees it, which leaves out a property
  whose value is \<^verbatim>\<open>undefined\<close>.
\<close>

record AppConfig =
  name :: string
  description :: "string option"

definition toJson :: "AppConfig \<Rightarrow> json" where
  "toJson config =
     JObj ((''name'', JStr (name config)) #
           (case description config of None \<Rightarrow> [] | Some d \<Rightarrow> [(''description'', JStr d)]))"

text \<open>
  An issue of a failed validation: the property it is about and, for the two length
  rules, the message the schema gives.
\<close>

datatype issue =
    invalid_type string
  | too_small string string
  | too_big string string

text \<open>
  \<^verbatim>\<open>z.string().min(1, "Configuration name is required").max(50, "Name too long")\<close>, on the
  value of the property \<^verbatim>\<open>name\<close> (\<open>None\<close> when the object has none).
\<close>

definition name_rule :: "json option \<Rightarrow> issue list + string" where
  "name_rule v =
     (case v of
        Some (JStr n) \<Rightarrow>
          (case (if length n < 1 then [too_small ''name'' ''Configuration name is required''] else []) @
                (if length n > 50 then [too_big ''name'' ''Name too long''] else []) of
             [] \<Rightarrow> Inr n
           | i # is \<Rightarrow> Inl (i # is))
      | _ \<Rightarrow> Inl [invalid_type ''name''])"

text \<open>\<^verbatim>\<open>z.string().optional()\<close>, on the value of the property \<^verbatim>\<open>description\<close>.\<close>

definition description_rule :: "json option \<Rightarrow> issue list + string option" where
  "description_rule v =
     (case v of
        None \<Rightarrow> Inr None
      | Some (JStr d) \<Rightarrow> Inr (Some d)
      | _ \<Rightarrow> Inl [invalid_type ''description''])"

text \<open>
  \<^verbatim>\<open>AppConfigSchema.safeParse\<close>: the issues, or the parsed data. An object passes when
  both rules pass; properties the schema does not name are ignored; anything that is
  not an object fails.
\<close>

definition AppConfigSchema_safeParse :: "json \<Rightarrow> issue list + AppConfig" where
  "AppConfigSchema_safeParse v =
     (case v of
        JObj props \<Rightarrow>
          (case (name_rule (map_of props ''name''), description_rule (map_of props ''description'')) of
             (Inr n, Inr d) \<Rightarrow> Inr \<lparr>name = n, description = d\<rparr>
           | (Inl a, Inr _) \<Rightarrow> Inl a
           | (Inr _, Inl b) \<Rightarrow> Inl b
           | (Inl a, Inl b) \<Rightarrow> Inl (a @ b))
      | _ \<Rightarrow> Inl [invalid_type []])"

definition success :: "issue list + AppConfig \<Rightarrow> bool" where
  "success validationResult = (case validationResult of Inl _ \<Rightarrow> False | Inr _ \<Rightarrow> True)"

section \<open>The configuration store\<close>

text \<open>
  \<^verbatim>\<open>FileConfigManager\<close>. Its fields are fixed by the constructor: \<open>configDir\<close> is the
  argument \<open>cd\<close> of every operation below, an absolute normalised path as the default
  \<^verbatim>\<open>join(homedir(), `.${configDirName}`, "configs")\<close> is, and \<open>currentConfigFile\<close> is
  \<^verbatim>\<open>join(this.configDir, "current.json")\<close>. An operation takes the file system and, when
  it writes, returns the new one. Its result is \<open>Inr\<close> of what it returns, or \<open>Inl\<close> of
  an exception that leaves it; a \<^verbatim>\<open>catch\<close> is the \<open>Inl\<close> branch of a \<open>case\<close>. The calls of
  \<^verbatim>\<open>Logger\<close> inside the store are left out: they write to the console and change neither
  the store nor a result. \<^verbatim>\<open>getConfig\<close> returns the parsed object, seen here at the type
  \<^verbatim>\<open>AppConfig\<close>: its name and its description, which are those of the validated data.
  \<^verbatim>\<open>getCurrentConfig\<close> returns whatever truthy value the file of the pointer has under
  \<^verbatim>\<open>name\<close>; the store itself only ever writes a string there.
\<close>

definition currentConfigFile :: "path \<Rightarrow> path" where
  "currentConfigFile cd = join cd ''current.json''"

definition getConfigFilePath :: "path \<Rightarrow> string \<Rightarrow> path" where
  "getConfigFilePath cd nm = join cd (nm @ ''.json'')"



definition saveConfig :: "path \<Rightarrow> fs \<Rightarrow> AppConfig \<Rightarrow> (error + bool) \<times> fs" where
  "saveConfig cd s config =
     (case AppConfigSchema_safeParse (toJson config) of
        Inl issues \<Rightarrow> (Inr False, s)
      | Inr _ \<Rightarrow>
          (case writeFileSync s (getConfigFilePath cd (name config)) (JSON_stringify (toJson config)) of
             Inl error \<Rightarrow> (Inr False, s)
           | Inr s' \<Rightarrow> (Inr True, s')))"


definition clearCurrentConfig :: "path \<Rightarrow> fs \<Rightarrow> (error + unit) \<times> fs" where
  "clearCurrentConfig cd s =
     (case writeFileSync s (currentConfigFile cd) (JSON_stringify (JObj [(''name'', JStr [])])) of
        Inl error \<Rightarrow> (Inr (), s)
      | Inr s' \<Rightarrow> (Inr (), s'))"







section \<open>The command that shows the active configuration\<close>

text \<open>
  \<^verbatim>\<open>showCurrentConfig\<close> of the command layer, with what it prints as a list: a call of
  \<^verbatim>\<open>Logger\<close> with its level and message, or a line of \<^verbatim>\<open>console.log\<close>. Colours and
  pictographs are left out of the messages. \<^verbatim>\<open>config.appName\<close> is the constant of
  \<^verbatim>\<open>src/utils/config.ts\<close>.
\<close>

datatype LogLevel = DEBUG | INFO | WARN | ERROR | FATAL







section \<open>Retrying with exponential backoff\<close>











section \<open>A store to run the operations on\<close>

text \<open>
  The store as the constructor leaves it under an empty home directory: the directory
  of the configurations and, in it, \<^verbatim>\<open>current.json\<close> holding \<^verbatim>\<open>{"name": ""}\<close>.
\<close>

definition example_dir :: path where
  "example_dir = [''home'', ''user'', ''.test-cli'', ''configs'']"

definition example_store :: fs where
  "example_store =
     fmupd [''home'', ''user'', ''.test-cli'', ''configs'', ''current.json'']
           (File (Json_text (JObj [(''name'', JStr [])])))
       (fmupd [''home'', ''user'', ''.test-cli'', ''configs''] Dir
         (fmupd [''home'', ''user'', ''.test-cli''] Dir
           (fmupd [''home'', ''user''] Dir
             (fmupd [''home''] Dir fmempty))))"




section \<open>Validation\<close>

lemma name_rule_JStr:
  "name_rule (Some (JStr n)) =
     (if n = [] then Inl [too_small ''name'' ''Configuration name is required'']
      else if 50 < length n then Inl [too_big ''name'' ''Name too long'']
      else Inr n)"
  by (cases n) (simp_all add: name_rule_def)

lemma safeParse_toJson:
  "AppConfigSchema_safeParse (toJson config) =
     (if name config = [] then Inl [too_small ''name'' ''Configuration name is required'']
      else if 50 < length (name config) then Inl [too_big ''name'' ''Name too long'']
      else Inr config)"
  by (cases config)
     (simp add: AppConfigSchema_safeParse_def toJson_def name_rule_JStr description_rule_def
           split: option.splits)

text \<open>
  Claim C7. Validation of the name fails for the empty name and for every name longer
  than 50 characters: the name rule gives issues, and no object with such a name passes
  the schema, whatever else it holds. A name of 1 to 50 characters passes the name
  rule, and a record with such a name passes the schema.
\<close>

theorem name_validation:
  "(n = [] \<or> 50 < length n \<longrightarrow>
      (\<exists>issues. name_rule (Some (JStr n)) = Inl issues) \<and>
      (\<forall>props. map_of props ''name'' = Some (JStr n) \<longrightarrow>
         \<not> success (AppConfigSchema_safeParse (JObj props))) \<and>
      \<not> success (AppConfigSchema_safeParse (toJson \<lparr>name = n, description = d\<rparr>))) \<and>
   (1 \<le> length n \<and> length n \<le> 50 \<longrightarrow>
      name_rule (Some (JStr n)) = Inr n \<and>
      success (AppConfigSchema_safeParse (toJson \<lparr>name = n, description = d\<rparr>)))"
proof (intro conjI impI allI)
  assume bad: "n = [] \<or> 50 < length n"
  then show "\<exists>issues. name_rule (Some (JStr n)) = Inl issues"
    by (auto simp: name_rule_JStr)
  show "\<not> success (AppConfigSchema_safeParse (toJson \<lparr>name = n, description = d\<rparr>))"
    using bad by (auto simp: safeParse_toJson success_def)
  fix props assume "map_of props ''name'' = Some (JStr n)"
  then show "\<not> success (AppConfigSchema_safeParse (JObj props))"
    using bad
    by (auto simp: AppConfigSchema_safeParse_def name_rule_JStr success_def split: sum.splits)
next
  assume ok: "1 \<le> length n \<and> length n \<le> 50"
  then have "n \<noteq> []" by auto
  with ok show "name_rule (Some (JStr n)) = Inr n"
    by (simp add: name_rule_JStr)
  from ok \<open>n \<noteq> []\<close>
  show "success (AppConfigSchema_safeParse (toJson \<lparr>name = n, description = d\<rparr>))"
    by (simp add: safeParse_toJson success_def)
qed

theorem name_validation_witness:
  "\<not> success (AppConfigSchema_safeParse (toJson \<lparr>name = [], description = None\<rparr>)) \<and>
   \<not> success (AppConfigSchema_safeParse
        (toJson \<lparr>name = replicate 51 (CHR ''a''), description = None\<rparr>)) \<and>
   name_rule (Some (JStr ''test-config'')) = Inr ''test-config'' \<and>
   success (AppConfigSchema_safeParse
     (toJson \<lparr>name = ''test-config'', description = Some ''Test configuration''\<rparr>))"
  using name_validation [of "[]" None]
        name_validation [of "replicate 51 (CHR ''a'')" None]
        name_validation [of "''test-config''" "Some ''Test configuration''"]
  by simp

section \<open>The file system primitives\<close>


lemma writeFileSync_lookup:
  "writeFileSync s p c = Inr s' \<Longrightarrow>
     fmlookup s' q = (if q = p then Some (File c) else fmlookup s q)"
  by (auto simp: writeFileSync_def split: if_splits option.splits node.splits)



lemma unlinkSync_lookup:
  "unlinkSync s p = Inr s' \<Longrightarrow> fmlookup s' q = (if q = p then None else fmlookup s q)"
  by (auto simp: unlinkSync_def split: if_splits option.splits node.splits)




lemma example_dir_paths:
  "currentConfigFile example_dir = [''home'', ''user'', ''.test-cli'', ''configs'', ''current.json'']"
  "getConfigFilePath example_dir ''dev'' = [''home'', ''user'', ''.test-cli'', ''configs'', ''dev.json'']"
  "getConfigFilePath example_dir ''a/b'' = [''home'', ''user'', ''.test-cli'', ''configs'', ''a'', ''b.json'']"
  "getConfigFilePath example_dir ''./current'' = [''home'', ''user'', ''.test-cli'', ''configs'', ''current.json'']"
  by (simp_all add: currentConfigFile_def getConfigFilePath_def example_dir_def join_def normalize_step_def)

section \<open>Saving and retrieving\<close>






section \<open>Paths of records and of the pointer\<close>

lemma split_sep_plain: "CHR ''/'' \<notin> set x \<Longrightarrow> split_sep x = [x]"
  by (induction x) auto

lemma currentConfigFile_eq: "currentConfigFile cd = cd @ [''current.json'']"
  by (simp add: currentConfigFile_def join_def normalize_step_def)

lemma getConfigFilePath_plain:
  assumes "CHR ''/'' \<notin> set nm"
  shows "getConfigFilePath cd nm = cd @ [nm @ ''.json'']"
proof -
  have ne: "nm @ ''.json'' \<noteq> y" if "length y < 5" for y
    using that by auto
  have "nm @ ''.json'' \<noteq> [] \<and> nm @ ''.json'' \<noteq> ''.'' \<and> nm @ ''.json'' \<noteq> ''..''"
    by (intro conjI ne) simp_all
  moreover have "split_sep (nm @ ''.json'') = [nm @ ''.json'']"
    using assms by (intro split_sep_plain) simp
  ultimately show ?thesis
    by (simp add: getConfigFilePath_def join_def normalize_step_def)
qed

lemma getConfigFilePath_current: "getConfigFilePath cd ''current'' = currentConfigFile cd"
  by (simp add: getConfigFilePath_def currentConfigFile_def)

lemma plain_name_not_pointer:
  assumes "CHR ''/'' \<notin> set nm" and "nm \<noteq> ''current''"
  shows "getConfigFilePath cd nm \<noteq> currentConfigFile cd"
proof
  assume "getConfigFilePath cd nm = currentConfigFile cd"
  with assms(1) have "nm @ ''.json'' = ''current'' @ ''.json''"
    by (simp add: getConfigFilePath_plain currentConfigFile_eq)
  then have "nm = ''current''" by (simp only: append_same_eq)
  with assms(2) show False by simp
qed





section \<open>Saving and the active pointer\<close>

lemma saveConfig_lookup:
  "fmlookup (snd (saveConfig cd s r)) q =
     (if fst (saveConfig cd s r) = Inr True \<and> q = getConfigFilePath cd (name r)
      then Some (File (JSON_stringify (toJson r))) else fmlookup s q)"
  by (auto simp: saveConfig_def writeFileSync_lookup split: sum.splits)

text \<open>
  Claim C10, as amended. \<^verbatim>\<open>saveConfig(r)\<close> leaves the file of the active pointer as it
  was whenever the file of the record is not the file of the pointer, which is so for
  every name other than \<^verbatim>\<open>current\<close> that has no separator \<^verbatim>\<open>/\<close> in it. The
  file of the record named \<^verbatim>\<open>current\<close> is the file of the pointer, and a \<^verbatim>\<open>saveConfig\<close>
  of it that returns true leaves the record there. The claim as written asks the
  first of every valid name other than \<^verbatim>\<open>current\<close>, but \<^verbatim>\<open>join\<close> normalises the path:
  the counterexample is the valid name \<^verbatim>\<open>./current\<close>, whose file is \<^verbatim>\<open>current.json\<close> too.
\<close>

theorem save_frame:
  "(CHR ''/'' \<notin> set (name r) \<and> name r \<noteq> ''current'' \<longrightarrow>
      fmlookup (snd (saveConfig cd s r)) (currentConfigFile cd) = fmlookup s (currentConfigFile cd)) \<and>
   (getConfigFilePath cd (name r) \<noteq> currentConfigFile cd \<longrightarrow>
      fmlookup (snd (saveConfig cd s r)) (currentConfigFile cd) = fmlookup s (currentConfigFile cd)) \<and>
   getConfigFilePath cd ''current'' = currentConfigFile cd \<and>
   (name r = ''current'' \<and> fst (saveConfig cd s r) = Inr True \<longrightarrow>
      fmlookup (snd (saveConfig cd s r)) (currentConfigFile cd) = Some (File (JSON_stringify (toJson r))))"
  using plain_name_not_pointer [of "name r" cd] getConfigFilePath_current [of cd]
  by (auto simp: saveConfig_lookup)

theorem save_frame_witness:
  "fmlookup (snd (saveConfig example_dir example_store \<lparr>name = ''dev'', description = None\<rparr>))
       (currentConfigFile example_dir) =
     Some (File (Json_text (JObj [(''name'', JStr [])]))) \<and>
   fst (saveConfig example_dir example_store \<lparr>name = ''current'', description = None\<rparr>) = Inr True \<and>
   fmlookup (snd (saveConfig example_dir example_store \<lparr>name = ''current'', description = None\<rparr>))
       (currentConfigFile example_dir) =
     Some (File (Json_text (JObj [(''name'', JStr ''current'')])))"
proof -
  have t: "fst (saveConfig example_dir example_store \<lparr>name = ''current'', description = None\<rparr>) = Inr True"
    by (simp add: saveConfig_def safeParse_toJson getConfigFilePath_current example_dir_paths
          writeFileSync_def valid_path_def is_dir_def example_store_def)
  have p: "fmlookup example_store (currentConfigFile example_dir) = Some (File (Json_text (JObj [(''name'', JStr [])])))"
    by (simp add: example_dir_paths example_store_def)
  from save_frame [of "\<lparr>name = ''dev'', description = None\<rparr>" example_dir example_store]
       save_frame [of "\<lparr>name = ''current'', description = None\<rparr>" example_dir example_store] t p
  show ?thesis by (simp add: JSON_stringify_def toJson_def)
qed

theorem save_frame_counterexample:
  "\<not> (\<forall>cd s r. success (AppConfigSchema_safeParse (toJson r)) \<and> name r \<noteq> ''current'' \<longrightarrow>
         fmlookup (snd (saveConfig cd s r)) (currentConfigFile cd) = fmlookup s (currentConfigFile cd))"
proof
  assume all: "\<forall>cd s r. success (AppConfigSchema_safeParse (toJson r)) \<and> name r \<noteq> ''current'' \<longrightarrow>
         fmlookup (snd (saveConfig cd s r)) (currentConfigFile cd) = fmlookup s (currentConfigFile cd)"
  let ?r = "\<lparr>name = ''./current'', description = None\<rparr>"
  have "success (AppConfigSchema_safeParse (toJson ?r)) \<and> name ?r \<noteq> ''current''"
    by (simp add: safeParse_toJson success_def)
  with all have "fmlookup (snd (saveConfig example_dir example_store ?r)) (currentConfigFile example_dir) =
      fmlookup example_store (currentConfigFile example_dir)"
    by blast
  moreover have "fst (saveConfig example_dir example_store ?r) = Inr True"
    by (simp add: saveConfig_def safeParse_toJson example_dir_paths writeFileSync_def valid_path_def
          is_dir_def example_store_def)
  then have "fmlookup (snd (saveConfig example_dir example_store ?r)) (currentConfigFile example_dir) =
      Some (File (Json_text (JObj [(''name'', JStr ''./current'')])))"
    by (simp add: saveConfig_lookup example_dir_paths JSON_stringify_def toJson_def)
  moreover have "fmlookup example_store (currentConfigFile example_dir) =
      Some (File (Json_text (JObj [(''name'', JStr [])])))"
    by (simp add: example_dir_paths example_store_def)
  ultimately show False by simp
qed

section \<open>Deleting the active record\<close>









section \<open>Setting the active pointer\<close>




section \<open>A pointer to a record that does not exist\<close>





lemma clearCurrentConfig_returns: "\<not> isl (fst (clearCurrentConfig cd s))"
  by (simp add: clearCurrentConfig_def split: sum.split)










section \<open>The trace of a retry\<close>















end
